theory Spec2Isabelle
  imports Complex_Main
begin

section \<open>Values exchanged with the service\<close>

text \<open>
  The handlers of \<^verbatim>\<open>app.py\<close> work on whatever \<^verbatim>\<open>request.get_json()\<close> returns: a Python
  value built from \<^verbatim>\<open>None\<close>, \<^verbatim>\<open>bool\<close>, \<^verbatim>\<open>int\<close>, \<^verbatim>\<open>float\<close>, \<^verbatim>\<open>str\<close>, \<^verbatim>\<open>list\<close> and \<^verbatim>\<open>dict\<close>.
  A Python float is a finite number, an infinity or NaN (the JSON parser of the standard library
  accepts the literals \<^verbatim>\<open>NaN\<close>, \<^verbatim>\<open>Infinity\<close> and \<^verbatim>\<open>-Infinity\<close>). A finite float is modelled by the
  real number it denotes. The handlers only compare floats and pass them on; they do no
  arithmetic on them, so no rounding is involved in what follows.

  A \<^verbatim>\<open>dict\<close> is the list of its items; a key is looked up with \<open>map_of\<close>.
\<close>

datatype pynum = Finite real | PosInf | NegInf | NaN

datatype json =
    JNull
  | JBool bool
  | JInt int
  | JFloat pynum
  | JStr string
  | JList "json list"
  | JDict "(string \<times> json) list"

text \<open>
  Exceptions are values. \<open>CollaboratorError\<close> is anything raised inside numpy, the scaler
  or the classifier, with its message.
\<close>

datatype exn =
    TypeError
  | KeyError
  | IndexError
  | ValueError
  | AttributeError
  | CollaboratorError string

text \<open>
  \<^verbatim>\<open>str(e)\<close>: the text of a built-in exception depends on the interpreter; the model puts the
  name of the exception class in its place.
\<close>

fun str_exn :: "exn \<Rightarrow> string" where
  "str_exn TypeError = ''TypeError''"
| "str_exn KeyError = ''KeyError''"
| "str_exn IndexError = ''IndexError''"
| "str_exn ValueError = ''ValueError''"
| "str_exn AttributeError = ''AttributeError''"
| "str_exn (CollaboratorError msg) = msg"

text \<open>Sequencing of two steps, the first of which may raise.\<close>

fun bindE :: "exn + 'a \<Rightarrow> ('a \<Rightarrow> exn + 'b) \<Rightarrow> exn + 'b" where
  "bindE (Inl e) f = Inl e"
| "bindE (Inr x) f = f x"

type_synonym response = "json \<times> nat"

text \<open>Reading a key of a response body (a JSON object).\<close>

fun field :: "json \<Rightarrow> string \<Rightarrow> json option" where
  "field (JDict kvs) k = map_of kvs k"
| "field _ k = None"


section \<open>The Python operations the handlers use\<close>

text \<open>\<^verbatim>\<open>sub in s\<close> on two strings: \<open>sub\<close> occurs in \<open>s\<close> as a contiguous piece.\<close>

fun starts_with :: "string \<Rightarrow> string \<Rightarrow> bool" where
  "starts_with s [] = True"
| "starts_with [] (p # ps) = False"
| "starts_with (c # cs) (p # ps) = (c = p \<and> starts_with cs ps)"

fun contains_str :: "string \<Rightarrow> string \<Rightarrow> bool" where
  "contains_str [] sub = (sub = [])"
| "contains_str (c # cs) sub = (starts_with (c # cs) sub \<or> contains_str cs sub)"

text \<open>
  \<^verbatim>\<open>feature in data\<close>: key membership on a dict, element membership on a list, the substring
  test on a string, and \<^verbatim>\<open>TypeError\<close> on \<^verbatim>\<open>None\<close>, a bool or a number.
\<close>

fun py_contains :: "string \<Rightarrow> json \<Rightarrow> exn + bool" where
  "py_contains f (JDict kvs) = Inr (map_of kvs f \<noteq> None)"
| "py_contains f (JList xs) = Inr (JStr f \<in> set xs)"
| "py_contains f (JStr s) = Inr (contains_str s f)"
| "py_contains f JNull = Inl TypeError"
| "py_contains f (JBool b) = Inl TypeError"
| "py_contains f (JInt n) = Inl TypeError"
| "py_contains f (JFloat x) = Inl TypeError"

text \<open>
  \<^verbatim>\<open>all(feature in data for feature in fs)\<close>: the generator is consumed from the left and
  stops at the first false test; a test that raises ends it with the exception.
\<close>

fun py_all_in :: "string list \<Rightarrow> json \<Rightarrow> exn + bool" where
  "py_all_in [] data = Inr True"
| "py_all_in (f # fs) data =
     (case py_contains f data of
        Inl e \<Rightarrow> Inl e
      | Inr b \<Rightarrow> if b then py_all_in fs data else Inr False)"

text \<open>
  \<^verbatim>\<open>data[key]\<close> with a string key: the value on a dict, \<^verbatim>\<open>KeyError\<close> when the key is absent,
  \<^verbatim>\<open>TypeError\<close> on everything that is not a dict.
\<close>

fun py_getitem :: "json \<Rightarrow> string \<Rightarrow> exn + json" where
  "py_getitem (JDict kvs) k = (case map_of kvs k of None \<Rightarrow> Inl KeyError | Some v \<Rightarrow> Inr v)"
| "py_getitem _ k = Inl TypeError"

text \<open>
  The numeric value of a Python number. \<^verbatim>\<open>bool\<close> is a subclass of \<^verbatim>\<open>int\<close>: \<^verbatim>\<open>True\<close> is
  1 and \<^verbatim>\<open>False\<close> is 0. Nothing else is ordered against a number.
\<close>

fun num_of :: "json \<Rightarrow> pynum option" where
  "num_of (JBool b) = Some (Finite (if b then 1 else 0))"
| "num_of (JInt n) = Some (Finite (of_int n))"
| "num_of (JFloat x) = Some x"
| "num_of _ = None"

text \<open>\<^verbatim>\<open>x <= y\<close> and \<^verbatim>\<open>x > y\<close> on numbers; every comparison with NaN is false.\<close>

fun le_num :: "pynum \<Rightarrow> pynum \<Rightarrow> bool" where
  "le_num NaN y = False"
| "le_num x NaN = False"
| "le_num NegInf y = True"
| "le_num x PosInf = True"
| "le_num (Finite a) (Finite b) = (a \<le> b)"
| "le_num x y = False"

fun gt_num :: "pynum \<Rightarrow> pynum \<Rightarrow> bool" where
  "gt_num NaN y = False"
| "gt_num x NaN = False"
| "gt_num (Finite a) (Finite b) = (a > b)"
| "gt_num PosInf PosInf = False"
| "gt_num PosInf y = True"
| "gt_num NegInf y = False"
| "gt_num x NegInf = True"
| "gt_num x y = False"

text \<open>
  The chained comparison \<^verbatim>\<open>lo <= v <= hi\<close> against two numeric constants. Python compares
  an int with a float by value, so the comparison is the one of the real numbers. Ordering a
  number against \<^verbatim>\<open>None\<close>, a string, a list or a dict raises \<^verbatim>\<open>TypeError\<close>.

  The constant \<^verbatim>\<open>0.1\<close> of the source is the double nearest to one tenth, which lies just
  above it, with no double in between: on every value a request can carry, comparing with
  the double and comparing with \<open>1/10\<close> agree.
\<close>

definition py_between :: "real \<Rightarrow> json \<Rightarrow> real \<Rightarrow> exn + bool" where
  "py_between lo v hi =
     (case num_of v of
        None \<Rightarrow> Inl TypeError
      | Some x \<Rightarrow> Inr (le_num (Finite lo) x \<and> le_num x (Finite hi)))"

text \<open>
  \<^verbatim>\<open>max(xs)\<close>: the first element is kept until a later one is greater; \<^verbatim>\<open>ValueError\<close>
  on an empty sequence.
\<close>

definition py_max :: "pynum list \<Rightarrow> exn + pynum" where
  "py_max xs =
     (case xs of
        [] \<Rightarrow> Inl ValueError
      | x # rest \<Rightarrow> Inr (foldl (\<lambda>m y. if gt_num y m then y else m) x rest))"

text \<open>\<^verbatim>\<open>xs[k]\<close> for a constant index \<open>k \<ge> 0\<close>.\<close>

definition py_index :: "'a list \<Rightarrow> nat \<Rightarrow> exn + 'a" where
  "py_index xs k = (if k < length xs then Inr (xs ! k) else Inl IndexError)"

text \<open>
  \<^verbatim>\<open>float(v)\<close>. The handler applies it to the four measurements only after the range check
  has passed, that is to a bool, an int or a float between 0.1 and 8, where the conversion is
  exact. On a string \<^verbatim>\<open>float\<close> would parse the text; the range check raises on every string
  before that (lemma \<open>in_typical_range_numeric\<close> below), and the model gives \<^verbatim>\<open>ValueError\<close>.
\<close>

fun py_float :: "json \<Rightarrow> exn + pynum" where
  "py_float (JBool b) = Inr (Finite (if b then 1 else 0))"
| "py_float (JInt n) = Inr (Finite (of_int n))"
| "py_float (JFloat x) = Inr x"
| "py_float (JStr s) = Inl ValueError"
| "py_float _ = Inl TypeError"


section \<open>The collaborators\<close>

text \<open>
  The scaler and the classifier are unpickled objects of scikit-learn, and the feature row is
  built by numpy: none of the three is code of the repository. They are parameters of the
  model. Each may raise. \<open>np_array env [a, b, c, d]\<close> is \<^verbatim>\<open>np.array([[a, b, c, d]])\<close>,
  \<open>model_predict env x\<close> is \<^verbatim>\<open>model.predict(x)[0]\<close> and \<open>model_predict_proba env x\<close> is
  \<^verbatim>\<open>model.predict_proba(x)[0]\<close>.
\<close>

record ('a, 's) env =
  np_array :: "json list \<Rightarrow> exn + 'a"
  scaler_transform :: "'a \<Rightarrow> exn + 's"
  model_predict :: "'s \<Rightarrow> exn + int"
  model_predict_proba :: "'s \<Rightarrow> exn + pynum list"


section \<open>The single prediction handler\<close>

definition SPECIES_MAP :: "(int \<times> string) list" where
  "SPECIES_MAP = [(0, ''setosa''), (1, ''versicolor''), (2, ''virginica'')]"

text \<open>\<^verbatim>\<open>SPECIES_MAP[prediction]\<close>\<close>

definition species_of :: "int \<Rightarrow> exn + string" where
  "species_of prediction =
     (case map_of SPECIES_MAP prediction of None \<Rightarrow> Inl KeyError | Some s \<Rightarrow> Inr s)"

definition required_features :: "string list" where
  "required_features = [''sepal_length'', ''sepal_width'', ''petal_length'', ''petal_width'']"

text \<open>
  The condition of lines 78 to 81, without its negation. \<^verbatim>\<open>and\<close> evaluates its right operand
  only when the left one is true, so a later value is not read once an earlier one is out of
  its interval.
\<close>

definition in_typical_range :: "json \<Rightarrow> exn + bool" where
  "in_typical_range data =
     bindE (py_getitem data ''sepal_length'') (\<lambda>sl.
     bindE (py_between 4 sl 8) (\<lambda>c1.
     if \<not> c1 then Inr False else
     bindE (py_getitem data ''sepal_width'') (\<lambda>sw.
     bindE (py_between 2 sw (9/2)) (\<lambda>c2.
     if \<not> c2 then Inr False else
     bindE (py_getitem data ''petal_length'') (\<lambda>pl.
     bindE (py_between 1 pl 7) (\<lambda>c3.
     if \<not> c3 then Inr False else
     bindE (py_getitem data ''petal_width'') (\<lambda>pw.
     py_between (1/10) pw (5/2))))))))"

definition missing_features_response :: response where
  "missing_features_response =
     (JDict [(''error'', JStr ''Missing required features''),
             (''required'', JList (map JStr required_features))], 400)"

definition out_of_range_response :: response where
  "out_of_range_response =
     (JDict [(''warning'', JStr ''Measurements outside typical Iris range''),
             (''predicted_species'', JStr ''unknown'')], 200)"

text \<open>The body of the \<^verbatim>\<open>try\<close> block of \<^verbatim>\<open>predict\<close>, from the parsed body \<open>data\<close> on.\<close>

definition predict_try :: "('a, 's) env \<Rightarrow> json \<Rightarrow> exn + response" where
  "predict_try env data =
     bindE (py_all_in required_features data) (\<lambda>complete.
     if \<not> complete then Inr missing_features_response else
     bindE (py_getitem data ''sepal_length'') (\<lambda>sl.
     bindE (py_getitem data ''sepal_width'') (\<lambda>sw.
     bindE (py_getitem data ''petal_length'') (\<lambda>pl.
     bindE (py_getitem data ''petal_width'') (\<lambda>pw.
     bindE (np_array env [sl, sw, pl, pw]) (\<lambda>features.
     bindE (in_typical_range data) (\<lambda>typical.
     if \<not> typical then Inr out_of_range_response else
     bindE (scaler_transform env features) (\<lambda>features_scaled.
     bindE (model_predict env features_scaled) (\<lambda>prediction.
     bindE (model_predict_proba env features_scaled) (\<lambda>probabilities.
     bindE (species_of prediction) (\<lambda>species.
     bindE (py_max probabilities) (\<lambda>confidence.
     bindE (py_index probabilities 0) (\<lambda>p0.
     bindE (py_index probabilities 1) (\<lambda>p1.
     bindE (py_index probabilities 2) (\<lambda>p2.
     bindE (bindE (py_getitem data ''sepal_length'') py_float) (\<lambda>m_sl.
     bindE (bindE (py_getitem data ''sepal_width'') py_float) (\<lambda>m_sw.
     bindE (bindE (py_getitem data ''petal_length'') py_float) (\<lambda>m_pl.
     bindE (bindE (py_getitem data ''petal_width'') py_float) (\<lambda>m_pw.
     Inr (JDict [(''predicted_species'', JStr species),
                 (''confidence'', JFloat confidence),
                 (''probabilities'',
                    JDict [(''setosa'', JFloat p0),
                           (''versicolor'', JFloat p1),
                           (''virginica'', JFloat p2)]),
                 (''measurements'',
                    JDict [(''sepal_length'', JFloat m_sl),
                           (''sepal_width'', JFloat m_sw),
                           (''petal_length'', JFloat m_pl),
                           (''petal_width'', JFloat m_pw)])],
          200))))))))))))))))))))"

text \<open>The handler: the \<^verbatim>\<open>try\<close> block under its catch-all \<^verbatim>\<open>except Exception\<close>.\<close>

definition predict :: "('a, 's) env \<Rightarrow> json \<Rightarrow> response" where
  "predict env data =
     (case predict_try env data of
        Inr r \<Rightarrow> r
      | Inl e \<Rightarrow>
          (JDict [(''error'', JStr ''Prediction failed''),
                  (''message'', JStr (str_exn e))], 500))"


section \<open>The batch prediction handler\<close>

text \<open>
  \<^verbatim>\<open>data.get(key, default)\<close>: only a dict has the method; on anything else the attribute
  lookup raises \<^verbatim>\<open>AttributeError\<close>.
\<close>

fun py_get :: "json \<Rightarrow> string \<Rightarrow> json \<Rightarrow> exn + json" where
  "py_get (JDict kvs) k d = Inr (case map_of kvs k of None \<Rightarrow> d | Some v \<Rightarrow> v)"
| "py_get _ k d = Inl AttributeError"

text \<open>
  The truth value of a Python value: \<^verbatim>\<open>None\<close>, \<^verbatim>\<open>False\<close>, zero and the empty string, list
  and dict are false; everything else is true (NaN is true).
\<close>

fun truthy :: "json \<Rightarrow> bool" where
  "truthy JNull = False"
| "truthy (JBool b) = b"
| "truthy (JInt n) = (n \<noteq> 0)"
| "truthy (JFloat x) = (x \<noteq> Finite 0)"
| "truthy (JStr s) = (s \<noteq> [])"
| "truthy (JList xs) = (xs \<noteq> [])"
| "truthy (JDict kvs) = (kvs \<noteq> [])"

text \<open>
  What \<^verbatim>\<open>enumerate(samples)\<close> runs over: the elements of a list, the characters of a string
  (each a string of length one), the keys of a dict; \<^verbatim>\<open>TypeError\<close> on a value that is not
  iterable.
\<close>

fun py_iter :: "json \<Rightarrow> exn + json list" where
  "py_iter (JList xs) = Inr xs"
| "py_iter (JStr s) = Inr (map (\<lambda>c. JStr [c]) s)"
| "py_iter (JDict kvs) = Inr (map (\<lambda>kv. JStr (fst kv)) kvs)"
| "py_iter _ = Inl TypeError"

text \<open>The body of the loop (lines 131 to 146): the entry appended for sample number \<open>i\<close>.\<close>

definition predict_sample :: "('a, 's) env \<Rightarrow> nat \<Rightarrow> json \<Rightarrow> exn + json" where
  "predict_sample env i sample =
     bindE (py_getitem sample ''sepal_length'') (\<lambda>sl.
     bindE (py_getitem sample ''sepal_width'') (\<lambda>sw.
     bindE (py_getitem sample ''petal_length'') (\<lambda>pl.
     bindE (py_getitem sample ''petal_width'') (\<lambda>pw.
     bindE (np_array env [sl, sw, pl, pw]) (\<lambda>features.
     bindE (scaler_transform env features) (\<lambda>features_scaled.
     bindE (model_predict env features_scaled) (\<lambda>prediction.
     bindE (model_predict_proba env features_scaled) (\<lambda>probabilities.
     bindE (species_of prediction) (\<lambda>species.
     bindE (py_max probabilities) (\<lambda>confidence.
     Inr (JDict [(''sample_id'', JInt (int i)),
                 (''predicted_species'', JStr species),
                 (''confidence'', JFloat confidence),
                 (''measurements'', sample)])))))))))))"

text \<open>
  The loop \<^verbatim>\<open>for i, sample in enumerate(samples)\<close>: \<open>i\<close> is the running index, \<open>results\<close>
  the list built so far. An exception in one sample leaves the loop at once.
\<close>

fun predict_loop :: "('a, 's) env \<Rightarrow> nat \<Rightarrow> json list \<Rightarrow> json list \<Rightarrow> exn + json list" where
  "predict_loop env i [] results = Inr results"
| "predict_loop env i (sample # rest) results =
     (case predict_sample env i sample of
        Inl e \<Rightarrow> Inl e
      | Inr entry \<Rightarrow> predict_loop env (Suc i) rest (results @ [entry]))"

definition no_samples_response :: response where
  "no_samples_response = (JDict [(''error'', JStr ''No samples provided'')], 400)"

text \<open>The body of the \<^verbatim>\<open>try\<close> block of \<^verbatim>\<open>predict_multiple\<close>, from the parsed body on.\<close>

definition predict_multiple_try :: "('a, 's) env \<Rightarrow> json \<Rightarrow> exn + response" where
  "predict_multiple_try env data =
     bindE (py_get data ''samples'' (JList [])) (\<lambda>samples.
     if \<not> truthy samples then Inr no_samples_response else
     bindE (py_iter samples) (\<lambda>items.
     bindE (predict_loop env 0 items []) (\<lambda>results.
     Inr (JDict [(''total_samples'', JInt (int (length results))),
                 (''predictions'', JList results)],
          200))))"

definition predict_multiple :: "('a, 's) env \<Rightarrow> json \<Rightarrow> response" where
  "predict_multiple env data =
     (case predict_multiple_try env data of
        Inr r \<Rightarrow> r
      | Inl e \<Rightarrow>
          (JDict [(''error'', JStr ''Batch prediction failed''),
                  (''message'', JStr (str_exn e))], 500))"


section \<open>Two instances of the collaborators\<close>

text \<open>
  For evaluating the handlers on concrete requests. In \<open>example_env\<close> the array is the row
  itself, the scaler subtracts a fixed centre from each of four finite numbers (and raises
  on anything else), and the classifier is a two-level threshold rule on the centred petal
  measurements with a fixed distribution per class.
\<close>

fun finite_row :: "json list \<Rightarrow> real list option" where
  "finite_row [] = Some []"
| "finite_row (v # vs) =
     (case num_of v of
        Some (Finite x) \<Rightarrow> (case finite_row vs of Some xs \<Rightarrow> Some (x # xs) | None \<Rightarrow> None)
      | _ \<Rightarrow> None)"

definition example_transform :: "json list \<Rightarrow> exn + real list" where
  "example_transform row =
     (case finite_row row of
        Some [a, b, c, d] \<Rightarrow> Inr [a - 584/100, b - 306/100, c - 376/100, d - 12/10]
      | _ \<Rightarrow> Inl (CollaboratorError ''could not convert input to float''))"

definition example_class :: "real list \<Rightarrow> int" where
  "example_class x =
     (if x ! 2 < 245/100 - 376/100 then 0
      else if x ! 3 < 175/100 - 12/10 then 1 else 2)"

definition example_env :: "(json list, real list) env" where
  "example_env =
     \<lparr> np_array = (\<lambda>row. Inr row),
       scaler_transform = example_transform,
       model_predict = (\<lambda>x. Inr (example_class x)),
       model_predict_proba = (\<lambda>x.
          Inr (if example_class x = 0 then [Finite 1, Finite 0, Finite 0]
               else if example_class x = 1 then [Finite 0, Finite (9/10), Finite (1/10)]
               else [Finite 0, Finite (1/10), Finite (9/10)])) \<rparr>"

text \<open>In \<open>failing_env\<close> every call of the scaler or of the classifier raises.\<close>

definition failing_env :: "(json list, real list) env" where
  "failing_env =
     \<lparr> np_array = (\<lambda>row. Inr row),
       scaler_transform = (\<lambda>a. Inl (CollaboratorError ''scaler called'')),
       model_predict = (\<lambda>x. Inl (CollaboratorError ''classifier called'')),
       model_predict_proba = (\<lambda>x. Inl (CollaboratorError ''classifier called'')) \<rparr>"


text \<open>
  Request bodies used below: the first sample of \<^verbatim>\<open>test_api.py\<close>, the same with a sepal
  length of 9, a sample with a petal width of 99, and a sample without \<^verbatim>\<open>petal_width\<close>.
\<close>

definition setosa_items :: "(string \<times> json) list" where
  "setosa_items =
     [(''sepal_length'', JFloat (Finite (51/10))), (''sepal_width'', JFloat (Finite (35/10))),
      (''petal_length'', JFloat (Finite (14/10))), (''petal_width'', JFloat (Finite (2/10)))]"

definition long_sepal_items :: "(string \<times> json) list" where
  "long_sepal_items =
     [(''sepal_length'', JInt 9), (''sepal_width'', JFloat (Finite (35/10))),
      (''petal_length'', JFloat (Finite (14/10))), (''petal_width'', JFloat (Finite (2/10)))]"

definition wide_petal_items :: "(string \<times> json) list" where
  "wide_petal_items =
     [(''sepal_length'', JFloat (Finite (67/10))), (''sepal_width'', JFloat (Finite 3)),
      (''petal_length'', JFloat (Finite (52/10))), (''petal_width'', JInt 99)]"

definition incomplete_items :: "(string \<times> json) list" where
  "incomplete_items =
     [(''sepal_length'', JFloat (Finite (51/10))), (''sepal_width'', JFloat (Finite (35/10))),
      (''petal_length'', JFloat (Finite (14/10)))]"

text \<open>
  A sample with the four keys whose petal width is the float \<^verbatim>\<open>Infinity\<close>: outside its
  interval, and refused by the scaler.
\<close>

definition infinite_petal_items :: "(string \<times> json) list" where
  "infinite_petal_items =
     [(''sepal_length'', JFloat (Finite (51/10))), (''sepal_width'', JFloat (Finite (35/10))),
      (''petal_length'', JFloat (Finite (14/10))), (''petal_width'', JFloat PosInf)]"


text \<open>
  Two batches: the first sample with the sample of petal width 99, and the first sample with
  the incomplete one.
\<close>

definition example_batch :: "(string \<times> json) list" where
  "example_batch = [(''samples'', JList [JDict setosa_items, JDict wide_petal_items])]"

definition broken_batch :: "(string \<times> json) list" where
  "broken_batch = [(''samples'', JList [JDict setosa_items, JDict incomplete_items])]"


section \<open>Auxiliary facts\<close>

lemmas example_defs =
  setosa_items_def long_sepal_items_def wide_petal_items_def incomplete_items_def
  example_env_def failing_env_def example_transform_def example_class_def

lemmas batch_defs = example_batch_def broken_batch_def

lemmas handler_defs =
  predict_def predict_try_def predict_multiple_def predict_multiple_try_def predict_sample_def
  required_features_def in_typical_range_def py_between_def species_of_def SPECIES_MAP_def
  py_max_def py_index_def missing_features_response_def out_of_range_response_def
  no_samples_response_def

lemma bindE_Inr_iff: "bindE m f = Inr y \<longleftrightarrow> (\<exists>x. m = Inr x \<and> f x = Inr y)"
  by (cases m) auto

lemma py_all_in_dict:
  "py_all_in fs (JDict kvs) = Inr (\<forall>f \<in> set fs. map_of kvs f \<noteq> None)"
  by (induction fs) auto

lemma py_all_in_list:
  "py_all_in fs (JList xs) = Inr (\<forall>f \<in> set fs. JStr f \<in> set xs)"
  by (induction fs) auto

lemma py_all_in_str:
  "py_all_in fs (JStr s) = Inr (\<forall>f \<in> set fs. contains_str s f)"
  by (induction fs) auto

lemma py_all_in_complete:
  assumes "map_of kvs ''sepal_length'' = Some sl"
    and "map_of kvs ''sepal_width'' = Some sw"
    and "map_of kvs ''petal_length'' = Some pl"
    and "map_of kvs ''petal_width'' = Some pw"
  shows "py_all_in required_features (JDict kvs) = Inr True"
  using assms by (simp add: required_features_def)

text \<open>On four numbers the range check never raises: it is the conjunction of the four tests.\<close>

lemma in_typical_range_numeric_values:
  assumes "map_of kvs ''sepal_length'' = Some sl" and "num_of sl = Some x1"
    and "map_of kvs ''sepal_width'' = Some sw" and "num_of sw = Some x2"
    and "map_of kvs ''petal_length'' = Some pl" and "num_of pl = Some x3"
    and "map_of kvs ''petal_width'' = Some pw" and "num_of pw = Some x4"
  shows "in_typical_range (JDict kvs) =
           Inr (le_num (Finite 4) x1 \<and> le_num x1 (Finite 8) \<and>
                le_num (Finite 2) x2 \<and> le_num x2 (Finite (9/2)) \<and>
                le_num (Finite 1) x3 \<and> le_num x3 (Finite 7) \<and>
                le_num (Finite (1/10)) x4 \<and> le_num x4 (Finite (5/2)))"
  using assms by (auto simp: in_typical_range_def py_between_def)

lemma py_float_num_of: "num_of v = Some x \<Longrightarrow> py_float v = Inr x"
  by (cases v) auto

text \<open>
  When the range check passes, each of the four values is a number, and \<^verbatim>\<open>float\<close> returns
  its value: the string case of \<open>py_float\<close> is never reached by the handler.
\<close>

lemma in_typical_range_numeric:
  assumes "in_typical_range data = Inr True"
    and "k \<in> set required_features" and "py_getitem data k = Inr v"
  shows "\<exists>x. num_of v = Some x \<and> py_float v = Inr x"
proof -
  from assms have "\<exists>x. num_of v = Some x"
    by (auto simp: in_typical_range_def bindE_Inr_iff py_between_def required_features_def
          split: if_splits option.splits)
  then show ?thesis
    by (auto simp: py_float_num_of)
qed

lemma py_max_three:
  "py_max [Finite p0, Finite p1, Finite p2] = Inr (Finite (Max {p0, p1, p2}))"
  by (auto simp: py_max_def max_def)

lemma py_max_nonempty: "ps \<noteq> [] \<Longrightarrow> \<exists>m. py_max ps = Inr m"
  by (cases ps) (auto simp: py_max_def)

lemma species_of_Inr:
  "species_of c = Inr sp \<Longrightarrow> sp \<in> {''setosa'', ''versicolor'', ''virginica''}"
  by (auto simp: species_of_def SPECIES_MAP_def split: if_splits)

lemma species_of_map_of: "species_of c = Inr sp \<Longrightarrow> map_of SPECIES_MAP c = Some sp"
  by (auto simp: species_of_def split: option.splits)

lemma species_of_class:
  "c \<in> {0, 1, 2} \<Longrightarrow> \<exists>species. map_of SPECIES_MAP c = Some species \<and>
      species_of c = Inr species \<and> species \<noteq> ''unknown''"
  by (auto simp: species_of_def SPECIES_MAP_def)

lemma predict_status_200:
  "predict env data = (body, 200) \<Longrightarrow> predict_try env data = Inr (body, 200)"
  by (auto simp: predict_def split: sum.splits)


section \<open>The single prediction handler: properties\<close>

text \<open>
  C1. Take a request body that holds the four measurements, each a number inside its interval
  of the range profile, and a classifier that returns a distribution over three classes: three
  finite values whose sum is within \<open>10\<^sup>-\<^sup>6\<close> of 1 (the contract of the classifier in the
  specification). Then every successful answer of \<^verbatim>\<open>/predict\<close> (status 200) names one of the
  three species, emits exactly the three values of the classifier, so their sum is within
  \<open>10\<^sup>-\<^sup>6\<close> of 1, and has as confidence the maximum of the three emitted values. The
  measurements are echoed as floats.
\<close>

theorem predict_in_range:
  assumes sl: "map_of kvs ''sepal_length'' = Some sl" "num_of sl = Some x1"
    and sw: "map_of kvs ''sepal_width'' = Some sw" "num_of sw = Some x2"
    and pl: "map_of kvs ''petal_length'' = Some pl" "num_of pl = Some x3"
    and pw: "map_of kvs ''petal_width'' = Some pw" "num_of pw = Some x4"
    and range: "le_num (Finite 4) x1 \<and> le_num x1 (Finite 8)"
               "le_num (Finite 2) x2 \<and> le_num x2 (Finite (9/2))"
               "le_num (Finite 1) x3 \<and> le_num x3 (Finite 7)"
               "le_num (Finite (1/10)) x4 \<and> le_num x4 (Finite (5/2))"
    and distribution: "\<And>x ps. model_predict_proba env x = Inr ps \<Longrightarrow>
           \<exists>p0 p1 p2. ps = [Finite p0, Finite p1, Finite p2] \<and>
                      \<bar>p0 + p1 + p2 - 1\<bar> \<le> 1 / 10 ^ 6"
    and success: "predict env (JDict kvs) = (body, 200)"
  shows "\<exists>species p0 p1 p2.
           species \<in> {''setosa'', ''versicolor'', ''virginica''} \<and>
           \<bar>p0 + p1 + p2 - 1\<bar> \<le> 1 / 10 ^ 6 \<and>
           body = JDict [(''predicted_species'', JStr species),
                         (''confidence'', JFloat (Finite (Max {p0, p1, p2}))),
                         (''probabilities'',
                            JDict [(''setosa'', JFloat (Finite p0)),
                                   (''versicolor'', JFloat (Finite p1)),
                                   (''virginica'', JFloat (Finite p2))]),
                         (''measurements'',
                            JDict [(''sepal_length'', JFloat x1),
                                   (''sepal_width'', JFloat x2),
                                   (''petal_length'', JFloat x3),
                                   (''petal_width'', JFloat x4)])]"
proof -
  have a: "py_all_in required_features (JDict kvs) = Inr True"
    using sl(1) sw(1) pl(1) pw(1) by (rule py_all_in_complete)
  have r: "in_typical_range (JDict kvs) = Inr True"
    using in_typical_range_numeric_values [OF sl sw pl pw] range by simp
  have "predict_try env (JDict kvs) = Inr (body, 200)"
    using success by (rule predict_status_200)
  then obtain features scaled prediction probabilities species confidence p0 p1 p2
    where steps: "np_array env [sl, sw, pl, pw] = Inr features"
      "scaler_transform env features = Inr scaled"
      "model_predict env scaled = Inr prediction"
      "model_predict_proba env scaled = Inr probabilities"
      "species_of prediction = Inr species"
      "py_max probabilities = Inr confidence"
      "py_index probabilities 0 = Inr p0"
      "py_index probabilities 1 = Inr p1"
      "py_index probabilities 2 = Inr p2"
    and body: "body = JDict [(''predicted_species'', JStr species),
                         (''confidence'', JFloat confidence),
                         (''probabilities'',
                            JDict [(''setosa'', JFloat p0),
                                   (''versicolor'', JFloat p1),
                                   (''virginica'', JFloat p2)]),
                         (''measurements'',
                            JDict [(''sepal_length'', JFloat x1),
                                   (''sepal_width'', JFloat x2),
                                   (''petal_length'', JFloat x3),
                                   (''petal_width'', JFloat x4)])]"
    using sl sw pl pw
    by (auto simp: predict_try_def a r bindE_Inr_iff py_float_num_of)
  from distribution [OF steps(4)] obtain q0 q1 q2
    where ps: "probabilities = [Finite q0, Finite q1, Finite q2]"
      and sum: "\<bar>q0 + q1 + q2 - 1\<bar> \<le> 1 / 10 ^ 6"
    by blast
  have "confidence = Finite (Max {q0, q1, q2})"
    using steps(6) by (simp add: ps py_max_three)
  moreover have "p0 = Finite q0" "p1 = Finite q1" "p2 = Finite q2"
    using steps(7-9) by (simp_all add: ps py_index_def)
  moreover note species_of_Inr [OF steps(5)] sum body
  ultimately show ?thesis by blast
qed

theorem predict_in_range_witness:
  "snd (predict example_env (JDict setosa_items)) = 200 \<and>
   (\<exists>species p0 p1 p2.
      species \<in> {''setosa'', ''versicolor'', ''virginica''} \<and>
      \<bar>p0 + p1 + p2 - 1\<bar> \<le> 1 / 10 ^ 6 \<and>
      fst (predict example_env (JDict setosa_items)) =
        JDict [(''predicted_species'', JStr species),
               (''confidence'', JFloat (Finite (Max {p0, p1, p2}))),
               (''probabilities'',
                  JDict [(''setosa'', JFloat (Finite p0)),
                         (''versicolor'', JFloat (Finite p1)),
                         (''virginica'', JFloat (Finite p2))]),
               (''measurements'',
                  JDict [(''sepal_length'', JFloat (Finite (51/10))),
                         (''sepal_width'', JFloat (Finite (35/10))),
                         (''petal_length'', JFloat (Finite (14/10))),
                         (''petal_width'', JFloat (Finite (2/10)))])])"
proof -
  have l: "map_of setosa_items ''sepal_length'' = Some (JFloat (Finite (51/10)))"
      "map_of setosa_items ''sepal_width'' = Some (JFloat (Finite (35/10)))"
      "map_of setosa_items ''petal_length'' = Some (JFloat (Finite (14/10)))"
      "map_of setosa_items ''petal_width'' = Some (JFloat (Finite (2/10)))"
    by (simp_all add: setosa_items_def)
  have n: "num_of (JFloat (Finite (51/10))) = Some (Finite (51/10))"
      "num_of (JFloat (Finite (35/10))) = Some (Finite (35/10))"
      "num_of (JFloat (Finite (14/10))) = Some (Finite (14/10))"
      "num_of (JFloat (Finite (2/10))) = Some (Finite (2/10))"
    by simp_all
  have r: "le_num (Finite 4) (Finite (51/10)) \<and> le_num (Finite (51/10)) (Finite 8)"
      "le_num (Finite 2) (Finite (35/10)) \<and> le_num (Finite (35/10)) (Finite (9/2))"
      "le_num (Finite 1) (Finite (14/10)) \<and> le_num (Finite (14/10)) (Finite 7)"
      "le_num (Finite (1/10)) (Finite (2/10)) \<and> le_num (Finite (2/10)) (Finite (5/2))"
    by simp_all
  have d: "\<exists>p0 p1 p2. ps = [Finite p0, Finite p1, Finite p2] \<and>
                      \<bar>p0 + p1 + p2 - 1\<bar> \<le> 1 / 10 ^ 6"
    if proba: "model_predict_proba example_env x = Inr ps" for x ps
  proof -
    consider "ps = [Finite 1, Finite 0, Finite 0]"
      | "ps = [Finite 0, Finite (9/10), Finite (1/10)]"
      | "ps = [Finite 0, Finite (1/10), Finite (9/10)]"
      using proba by (auto simp: example_env_def split: if_splits)
    then show ?thesis
    proof cases
      case 1
      then have "ps = [Finite 1, Finite 0, Finite 0] \<and>
                 \<bar>1 + 0 + 0 - 1\<bar> \<le> (1::real) / 10 ^ 6"
        by simp
      then show ?thesis by blast
    next
      case 2
      then have "ps = [Finite 0, Finite (9/10), Finite (1/10)] \<and>
                 \<bar>0 + 9/10 + 1/10 - 1\<bar> \<le> (1::real) / 10 ^ 6"
        by simp
      then show ?thesis by blast
    next
      case 3
      then have "ps = [Finite 0, Finite (1/10), Finite (9/10)] \<and>
                 \<bar>0 + 1/10 + 9/10 - 1\<bar> \<le> (1::real) / 10 ^ 6"
        by simp
      then show ?thesis by blast
    qed
  qed
  have s: "predict example_env (JDict setosa_items) =
             (fst (predict example_env (JDict setosa_items)), 200)"
    by (simp add: handler_defs example_defs)
  show ?thesis
  proof (rule conjI)
    show "snd (predict example_env (JDict setosa_items)) = 200"
      by (simp add: handler_defs example_defs)
    show "\<exists>species p0 p1 p2.
      species \<in> {''setosa'', ''versicolor'', ''virginica''} \<and>
      \<bar>p0 + p1 + p2 - 1\<bar> \<le> 1 / 10 ^ 6 \<and>
      fst (predict example_env (JDict setosa_items)) =
        JDict [(''predicted_species'', JStr species),
               (''confidence'', JFloat (Finite (Max {p0, p1, p2}))),
               (''probabilities'',
                  JDict [(''setosa'', JFloat (Finite p0)),
                         (''versicolor'', JFloat (Finite p1)),
                         (''virginica'', JFloat (Finite p2))]),
               (''measurements'',
                  JDict [(''sepal_length'', JFloat (Finite (51/10))),
                         (''sepal_width'', JFloat (Finite (35/10))),
                         (''petal_length'', JFloat (Finite (14/10))),
                         (''petal_width'', JFloat (Finite (2/10)))])]"
      by (rule predict_in_range [OF l(1) n(1) l(2) n(2) l(3) n(3) l(4) n(4) r d s])
  qed
qed

text \<open>
  C2. Take a request body that holds the four measurements, each a number (finite or not), at
  least one of them outside its closed interval, and let numpy build the feature row (the
  row is built before the range check). Then \<^verbatim>\<open>/predict\<close> answers with status 200 and a body of
  exactly two fields, the warning and \<open>predicted_species = unknown\<close>: there is no
  \<open>probabilities\<close> and no \<open>confidence\<close>. The answer is the same for every scaler and every
  classifier, also for ones that raise on every call: they are not consulted.
\<close>

theorem predict_out_of_range:
  assumes "map_of kvs ''sepal_length'' = Some sl" and "num_of sl = Some x1"
    and "map_of kvs ''sepal_width'' = Some sw" and "num_of sw = Some x2"
    and "map_of kvs ''petal_length'' = Some pl" and "num_of pl = Some x3"
    and "map_of kvs ''petal_width'' = Some pw" and "num_of pw = Some x4"
    and "np_array env [sl, sw, pl, pw] = Inr features"
    and "\<not> (le_num (Finite 4) x1 \<and> le_num x1 (Finite 8) \<and>
            le_num (Finite 2) x2 \<and> le_num x2 (Finite (9/2)) \<and>
            le_num (Finite 1) x3 \<and> le_num x3 (Finite 7) \<and>
            le_num (Finite (1/10)) x4 \<and> le_num x4 (Finite (5/2)))"
  shows "predict env (JDict kvs) =
           (JDict [(''warning'', JStr ''Measurements outside typical Iris range''),
                   (''predicted_species'', JStr ''unknown'')], 200) \<and>
         field (fst (predict env (JDict kvs))) ''probabilities'' = None \<and>
         field (fst (predict env (JDict kvs))) ''confidence'' = None"
proof -
  have a: "py_all_in required_features (JDict kvs) = Inr True"
    using assms(1,3,5,7) by (rule py_all_in_complete)
  have r: "in_typical_range (JDict kvs) = Inr False"
    using in_typical_range_numeric_values [OF assms(1-8)] assms(10) by simp
  have "predict env (JDict kvs) =
           (JDict [(''warning'', JStr ''Measurements outside typical Iris range''),
                   (''predicted_species'', JStr ''unknown'')], 200)"
    using assms(1,3,5,7,9)
    by (simp add: predict_def predict_try_def a r out_of_range_response_def)
  then show ?thesis by simp
qed

theorem predict_out_of_range_witness:
  "predict failing_env (JDict long_sepal_items) =
     (JDict [(''warning'', JStr ''Measurements outside typical Iris range''),
             (''predicted_species'', JStr ''unknown'')], 200) \<and>
   field (fst (predict failing_env (JDict long_sepal_items))) ''probabilities'' = None \<and>
   field (fst (predict failing_env (JDict long_sepal_items))) ''confidence'' = None"
proof -
  have l: "map_of long_sepal_items ''sepal_length'' = Some (JInt 9)"
      "map_of long_sepal_items ''sepal_width'' = Some (JFloat (Finite (35/10)))"
      "map_of long_sepal_items ''petal_length'' = Some (JFloat (Finite (14/10)))"
      "map_of long_sepal_items ''petal_width'' = Some (JFloat (Finite (2/10)))"
    by (simp_all add: long_sepal_items_def)
  have n: "num_of (JInt 9) = Some (Finite 9)"
      "num_of (JFloat (Finite (35/10))) = Some (Finite (35/10))"
      "num_of (JFloat (Finite (14/10))) = Some (Finite (14/10))"
      "num_of (JFloat (Finite (2/10))) = Some (Finite (2/10))"
    by simp_all
  have a: "np_array failing_env
             [JInt 9, JFloat (Finite (35/10)), JFloat (Finite (14/10)), JFloat (Finite (2/10))] =
           Inr [JInt 9, JFloat (Finite (35/10)), JFloat (Finite (14/10)), JFloat (Finite (2/10))]"
    by (simp add: failing_env_def)
  have o: "\<not> (le_num (Finite 4) (Finite 9) \<and> le_num (Finite 9) (Finite 8) \<and>
            le_num (Finite 2) (Finite (35/10)) \<and> le_num (Finite (35/10)) (Finite (9/2)) \<and>
            le_num (Finite 1) (Finite (14/10)) \<and> le_num (Finite (14/10)) (Finite 7) \<and>
            le_num (Finite (1/10)) (Finite (2/10)) \<and> le_num (Finite (2/10)) (Finite (5/2)))"
    by simp
  show ?thesis
    by (rule predict_out_of_range [OF l(1) n(1) l(2) n(2) l(3) n(3) l(4) n(4) a o])
qed

text \<open>
  C3. A request body that is a JSON object and lacks at least one of the four required keys
  is answered with status 400, and the body of the answer is the same whatever the missing
  keys are: the error text and, under \<open>required\<close>, the four names in full.
\<close>

theorem predict_missing_features:
  assumes "f \<in> set required_features" and "map_of kvs f = None"
  shows "predict env (JDict kvs) =
           (JDict [(''error'', JStr ''Missing required features''),
                   (''required'', JList [JStr ''sepal_length'', JStr ''sepal_width'',
                                         JStr ''petal_length'', JStr ''petal_width''])], 400)"
proof -
  have "py_all_in required_features (JDict kvs) = Inr False"
    using assms by (auto simp: py_all_in_dict)
  then show ?thesis
    by (simp add: predict_def predict_try_def missing_features_response_def
        required_features_def)
qed

theorem predict_missing_features_witness:
  "''petal_width'' \<in> set required_features \<and>
   map_of [(''sepal_length'', JFloat (Finite (51/10))), (''sepal_width'', JInt 3),
           (''petal_length'', JFloat (Finite (14/10)))] ''petal_width'' = None \<and>
   predict example_env
     (JDict [(''sepal_length'', JFloat (Finite (51/10))), (''sepal_width'', JInt 3),
             (''petal_length'', JFloat (Finite (14/10)))]) =
     (JDict [(''error'', JStr ''Missing required features''),
             (''required'', JList [JStr ''sepal_length'', JStr ''sepal_width'',
                                   JStr ''petal_length'', JStr ''petal_width''])], 400)"
proof -
  have f: "''petal_width'' \<in> set required_features"
    by (simp add: required_features_def)
  have m: "map_of [(''sepal_length'', JFloat (Finite (51/10))), (''sepal_width'', JInt 3),
             (''petal_length'', JFloat (Finite (14/10)))] ''petal_width'' = None"
    by simp
  show ?thesis
    using f m predict_missing_features [OF f m, of example_env] by simp
qed

text \<open>
  The claim C10 says that every body that is not a JSON object makes the membership test raise
  and is answered with status 500. On a list the membership test does not raise: the empty
  list is answered with the 400 answer for missing features.
\<close>

theorem predict_list_body_counterexample:
  "predict example_env (JList []) =
     (JDict [(''error'', JStr ''Missing required features''),
             (''required'', JList [JStr ''sepal_length'', JStr ''sepal_width'',
                                   JStr ''petal_length'', JStr ''petal_width''])], 400) \<and>
   snd (predict example_env (JList [])) \<noteq> 500"
  by (simp add: handler_defs)

text \<open>
  C10, amended. When the body is \<^verbatim>\<open>null\<close>, a boolean or a number, the membership test raises
  \<^verbatim>\<open>TypeError\<close> inside the catch-all and the answer is status 500 with the error
  \<open>Prediction failed\<close>. When the body is a list or a string, the membership test does not
  raise: the answer is the 400 answer for missing features, unless the list has all four
  names among its elements (the string has all four as substrings); then the lookup
  \<^verbatim>\<open>data['sepal_length']\<close> raises \<^verbatim>\<open>TypeError\<close> and the answer is status 500.
\<close>

theorem predict_non_mapping_body:
  "predict env JNull =
     (JDict [(''error'', JStr ''Prediction failed''), (''message'', JStr (str_exn TypeError))], 500) \<and>
   predict env (JBool b) =
     (JDict [(''error'', JStr ''Prediction failed''), (''message'', JStr (str_exn TypeError))], 500) \<and>
   predict env (JInt n) =
     (JDict [(''error'', JStr ''Prediction failed''), (''message'', JStr (str_exn TypeError))], 500) \<and>
   predict env (JFloat x) =
     (JDict [(''error'', JStr ''Prediction failed''), (''message'', JStr (str_exn TypeError))], 500) \<and>
   predict env (JList xs) =
     (if \<forall>f \<in> set required_features. JStr f \<in> set xs
      then (JDict [(''error'', JStr ''Prediction failed''),
                   (''message'', JStr (str_exn TypeError))], 500)
      else (JDict [(''error'', JStr ''Missing required features''),
                   (''required'', JList (map JStr required_features))], 400)) \<and>
   predict env (JStr s) =
     (if \<forall>f \<in> set required_features. contains_str s f
      then (JDict [(''error'', JStr ''Prediction failed''),
                   (''message'', JStr (str_exn TypeError))], 500)
      else (JDict [(''error'', JStr ''Missing required features''),
                   (''required'', JList (map JStr required_features))], 400))"
  by (simp add: predict_def predict_try_def py_all_in_list py_all_in_str
        missing_features_response_def required_features_def)

theorem predict_non_mapping_body_witness:
  "predict example_env JNull =
     (JDict [(''error'', JStr ''Prediction failed''), (''message'', JStr ''TypeError'')], 500) \<and>
   predict example_env (JInt 5) =
     (JDict [(''error'', JStr ''Prediction failed''), (''message'', JStr ''TypeError'')], 500) \<and>
   predict example_env (JList [JInt 1]) =
     (JDict [(''error'', JStr ''Missing required features''),
             (''required'', JList [JStr ''sepal_length'', JStr ''sepal_width'',
                                   JStr ''petal_length'', JStr ''petal_width''])], 400) \<and>
   predict example_env (JStr ''abc'') =
     (JDict [(''error'', JStr ''Missing required features''),
             (''required'', JList [JStr ''sepal_length'', JStr ''sepal_width'',
                                   JStr ''petal_length'', JStr ''petal_width''])], 400)"
proof -
  have l: "\<not> (\<forall>f \<in> set required_features. JStr f \<in> set [JInt 1])"
    by (auto simp: required_features_def)
  have s: "\<not> (\<forall>f \<in> set required_features. contains_str ''abc'' f)"
    by (simp add: required_features_def)
  have m: "map JStr required_features =
             [JStr ''sepal_length'', JStr ''sepal_width'', JStr ''petal_length'', JStr ''petal_width'']"
    by (simp add: required_features_def)
  from predict_non_mapping_body [of example_env True 5 "Finite (3/2)" "[JInt 1]" "''abc''"]
  show ?thesis
    by (simp only: l s m if_False str_exn.simps)
qed


section \<open>The batch prediction handler: properties\<close>

text \<open>What the loop body returns, and when.\<close>

lemma predict_sample_Inr:
  assumes "predict_sample env i sample = Inr entry"
  shows "\<exists>sl sw pl pw features scaled prediction probabilities species confidence.
           py_getitem sample ''sepal_length'' = Inr sl \<and>
           py_getitem sample ''sepal_width'' = Inr sw \<and>
           py_getitem sample ''petal_length'' = Inr pl \<and>
           py_getitem sample ''petal_width'' = Inr pw \<and>
           np_array env [sl, sw, pl, pw] = Inr features \<and>
           scaler_transform env features = Inr scaled \<and>
           model_predict env scaled = Inr prediction \<and>
           model_predict_proba env scaled = Inr probabilities \<and>
           species_of prediction = Inr species \<and>
           py_max probabilities = Inr confidence \<and>
           entry = JDict [(''sample_id'', JInt (int i)),
                          (''predicted_species'', JStr species),
                          (''confidence'', JFloat confidence),
                          (''measurements'', sample)]"
  using assms by (auto simp: predict_sample_def bindE_Inr_iff)

lemma predict_sample_ok:
  assumes "py_getitem sample ''sepal_length'' = Inr sl"
    and "py_getitem sample ''sepal_width'' = Inr sw"
    and "py_getitem sample ''petal_length'' = Inr pl"
    and "py_getitem sample ''petal_width'' = Inr pw"
    and "np_array env [sl, sw, pl, pw] = Inr features"
    and "scaler_transform env features = Inr scaled"
    and "model_predict env scaled = Inr prediction"
    and "model_predict_proba env scaled = Inr probabilities"
    and "species_of prediction = Inr species"
    and "py_max probabilities = Inr confidence"
  shows "predict_sample env i sample =
           Inr (JDict [(''sample_id'', JInt (int i)),
                       (''predicted_species'', JStr species),
                       (''confidence'', JFloat confidence),
                       (''measurements'', sample)])"
  using assms by (simp add: predict_sample_def)

text \<open>
  The loop, by induction on the samples left, for any index and any list built so far: when
  it returns, it has appended one entry per sample, in order, each the result of the loop body
  at the position of its sample; it returns when every sample is processed without an
  exception; it raises when some sample does.
\<close>

lemma predict_loop_Inr:
  "predict_loop env i ss acc = Inr res \<Longrightarrow>
     \<exists>es. res = acc @ es \<and> length es = length ss \<and>
          (\<forall>k<length ss. predict_sample env (i + k) (ss ! k) = Inr (es ! k))"
proof (induction ss arbitrary: i acc res)
  case Nil
  then show ?case by simp
next
  case (Cons s ss)
  from Cons.prems obtain entry
    where entry: "predict_sample env i s = Inr entry"
      and rest: "predict_loop env (Suc i) ss (acc @ [entry]) = Inr res"
    by (auto split: sum.splits)
  from Cons.IH [OF rest] obtain es
    where es: "res = (acc @ [entry]) @ es" "length es = length ss"
      "\<forall>k<length ss. predict_sample env (Suc i + k) (ss ! k) = Inr (es ! k)"
    by blast
  have "\<forall>k<length (s # ss). predict_sample env (i + k) ((s # ss) ! k) = Inr ((entry # es) ! k)"
  proof (intro allI impI)
    fix k assume "k < length (s # ss)"
    then show "predict_sample env (i + k) ((s # ss) ! k) = Inr ((entry # es) ! k)"
      using entry es(3) by (cases k) auto
  qed
  with es(1,2) show ?case
    by (intro exI [of _ "entry # es"]) simp
qed

lemma predict_loop_success:
  "(\<forall>k<length ss. \<exists>entry. predict_sample env (i + k) (ss ! k) = Inr entry) \<Longrightarrow>
     \<exists>res. predict_loop env i ss acc = Inr res"
proof (induction ss arbitrary: i acc)
  case Nil
  then show ?case by simp
next
  case (Cons s ss)
  from Cons.prems obtain entry where entry: "predict_sample env i s = Inr entry"
    by fastforce
  have "\<forall>k<length ss. \<exists>entry. predict_sample env (Suc i + k) (ss ! k) = Inr entry"
  proof (intro allI impI)
    fix k assume "k < length ss"
    then have "\<exists>entry. predict_sample env (i + Suc k) ((s # ss) ! Suc k) = Inr entry"
      using Cons.prems by (metis Suc_less_eq length_Cons)
    then show "\<exists>entry. predict_sample env (Suc i + k) (ss ! k) = Inr entry" by simp
  qed
  from Cons.IH [OF this] show ?case
    by (simp add: entry)
qed

lemma predict_loop_failure:
  "k < length ss \<Longrightarrow> predict_sample env (i + k) (ss ! k) = Inl e \<Longrightarrow>
     \<exists>e'. predict_loop env i ss acc = Inl e'"
proof (induction ss arbitrary: i k acc)
  case Nil
  then show ?case by simp
next
  case (Cons s ss)
  show ?case
  proof (cases "predict_sample env i s")
    case (Inl e0)
    then show ?thesis by simp
  next
    case (Inr entry)
    with Cons.prems obtain j where j: "k = Suc j"
      by (cases k) auto
    with Cons.prems have "j < length ss" "predict_sample env (Suc i + j) (ss ! j) = Inl e"
      by simp_all
    from Cons.IH [OF this] show ?thesis
      by (simp add: Inr)
  qed
qed

text \<open>The handler on a body whose \<open>samples\<close> is a non-empty list.\<close>

lemma predict_multiple_list:
  assumes "map_of kvs ''samples'' = Some (JList ss)" and "ss \<noteq> []"
  shows "predict_multiple env (JDict kvs) =
           (case predict_loop env 0 ss [] of
              Inr results \<Rightarrow>
                (JDict [(''total_samples'', JInt (int (length results))),
                        (''predictions'', JList results)], 200)
            | Inl e \<Rightarrow>
                (JDict [(''error'', JStr ''Batch prediction failed''),
                        (''message'', JStr (str_exn e))], 500))"
  using assms
  by (cases "predict_loop env 0 ss []")
     (simp_all add: predict_multiple_def predict_multiple_try_def)

lemma predict_multiple_success:
  assumes "map_of kvs ''samples'' = Some (JList ss)" and "ss \<noteq> []"
    and "\<And>k. k < length ss \<Longrightarrow> \<exists>entry. predict_sample env k (ss ! k) = Inr entry"
  shows "\<exists>entries. predict_multiple env (JDict kvs) =
             (JDict [(''total_samples'', JInt (int (length ss))),
                     (''predictions'', JList entries)], 200) \<and>
           length entries = length ss \<and>
           (\<forall>k<length ss. predict_sample env k (ss ! k) = Inr (entries ! k))"
proof -
  from assms(3) have "\<forall>k<length ss. \<exists>entry. predict_sample env (0 + k) (ss ! k) = Inr entry"
    by simp
  from predict_loop_success [OF this] obtain res
    where res: "predict_loop env 0 ss [] = Inr res" by blast
  from predict_loop_Inr [OF res] have "length res = length ss"
    and "\<forall>k<length ss. predict_sample env k (ss ! k) = Inr (res ! k)"
    by auto
  then show ?thesis
    by (simp add: predict_multiple_list [OF assms(1,2)] res)
qed

lemma predict_multiple_status_200:
  assumes "predict_multiple env data = (body, 200)"
  shows "\<exists>samples items results.
           py_get data ''samples'' (JList []) = Inr samples \<and> truthy samples \<and>
           py_iter samples = Inr items \<and>
           predict_loop env 0 items [] = Inr results \<and>
           body = JDict [(''total_samples'', JInt (int (length results))),
                         (''predictions'', JList results)]"
  using assms
  by (auto simp: predict_multiple_def predict_multiple_try_def bindE_Inr_iff
        no_samples_response_def split: sum.splits if_splits)

text \<open>
  The claim C4 says that every sample that holds the four keys, in range or not, gets a
  labelled prediction. A batch of one sample that holds the four keys, with a petal width of
  \<^verbatim>\<open>Infinity\<close>, is answered with status 500 and the batch error, with no \<open>predictions\<close>:
  the scaler raises on the sample, and the exception ends the batch.
\<close>

theorem predict_multiple_no_range_check_counterexample:
  "py_all_in required_features (JDict infinite_petal_items) = Inr True \<and>
   snd (predict_multiple example_env
          (JDict [(''samples'', JList [JDict infinite_petal_items])])) = 500 \<and>
   field (fst (predict_multiple example_env
                 (JDict [(''samples'', JList [JDict infinite_petal_items])]))) ''error'' =
     Some (JStr ''Batch prediction failed'') \<and>
   field (fst (predict_multiple example_env
                 (JDict [(''samples'', JList [JDict infinite_petal_items])]))) ''predictions'' =
     None"
  by (simp add: handler_defs example_defs infinite_petal_items_def)

text \<open>
  C4, amended. The batch handler has no range check. Take a body whose \<open>samples\<close> is a
  non-empty list in which every sample holds the four keys, and let numpy, the scaler and the
  classifier return without an exception on every sample, the classifier with a class
  \<open>cls k\<close> among 0, 1, 2 for sample \<open>k\<close> and a non-empty distribution. Nothing is assumed
  about the values: they may lie outside the intervals of the range profile. Then the answer
  has status 200 and entry \<open>k\<close> carries the species that \<open>SPECIES_MAP\<close> gives to the class
  returned by the classifier on the scaled sample, never \<open>unknown\<close>.
\<close>

theorem predict_multiple_no_range_check:
  assumes samples: "map_of kvs ''samples'' = Some (JList ss)" "ss \<noteq> []"
    and inference: "\<And>k. k < length ss \<Longrightarrow>
          \<exists>sl sw pl pw features scaled probabilities.
            py_getitem (ss ! k) ''sepal_length'' = Inr sl \<and>
            py_getitem (ss ! k) ''sepal_width'' = Inr sw \<and>
            py_getitem (ss ! k) ''petal_length'' = Inr pl \<and>
            py_getitem (ss ! k) ''petal_width'' = Inr pw \<and>
            np_array env [sl, sw, pl, pw] = Inr features \<and>
            scaler_transform env features = Inr scaled \<and>
            model_predict env scaled = Inr (cls k) \<and> cls k \<in> {0, 1, 2} \<and>
            model_predict_proba env scaled = Inr probabilities \<and> probabilities \<noteq> []"
  shows "\<exists>entries.
           predict_multiple env (JDict kvs) =
             (JDict [(''total_samples'', JInt (int (length ss))),
                     (''predictions'', JList entries)], 200) \<and>
           length entries = length ss \<and>
           (\<forall>k<length ss. \<exists>species.
              map_of SPECIES_MAP (cls k) = Some species \<and>
              species \<noteq> ''unknown'' \<and>
              field (entries ! k) ''predicted_species'' = Some (JStr species))"
proof -
  have labelled: "\<exists>species confidence.
          predict_sample env k (ss ! k) =
            Inr (JDict [(''sample_id'', JInt (int k)),
                        (''predicted_species'', JStr species),
                        (''confidence'', JFloat confidence),
                        (''measurements'', ss ! k)]) \<and>
          map_of SPECIES_MAP (cls k) = Some species \<and> species \<noteq> ''unknown''"
    if "k < length ss" for k
  proof -
    from inference [OF that] obtain sl sw pl pw features scaled probabilities
      where steps: "py_getitem (ss ! k) ''sepal_length'' = Inr sl"
        "py_getitem (ss ! k) ''sepal_width'' = Inr sw"
        "py_getitem (ss ! k) ''petal_length'' = Inr pl"
        "py_getitem (ss ! k) ''petal_width'' = Inr pw"
        "np_array env [sl, sw, pl, pw] = Inr features"
        "scaler_transform env features = Inr scaled"
        "model_predict env scaled = Inr (cls k)"
        "model_predict_proba env scaled = Inr probabilities"
      and cls: "cls k \<in> {0, 1, 2}" and ne: "probabilities \<noteq> []"
      by blast
    from species_of_class [OF cls] obtain species
      where species: "map_of SPECIES_MAP (cls k) = Some species"
        "species_of (cls k) = Inr species" "species \<noteq> ''unknown''"
      by blast
    from py_max_nonempty [OF ne] obtain confidence
      where confidence: "py_max probabilities = Inr confidence"
      by blast
    from predict_sample_ok [OF steps species(2) confidence] species(1,3)
    show ?thesis by blast
  qed
  then have "\<And>k. k < length ss \<Longrightarrow> \<exists>entry. predict_sample env k (ss ! k) = Inr entry"
    by blast
  from predict_multiple_success [OF samples this] obtain entries
    where entries: "predict_multiple env (JDict kvs) =
             (JDict [(''total_samples'', JInt (int (length ss))),
                     (''predictions'', JList entries)], 200)"
      "length entries = length ss"
      "\<forall>k<length ss. predict_sample env k (ss ! k) = Inr (entries ! k)"
    by blast
  have "\<exists>species. map_of SPECIES_MAP (cls k) = Some species \<and> species \<noteq> ''unknown'' \<and>
          field (entries ! k) ''predicted_species'' = Some (JStr species)"
    if "k < length ss" for k
    using labelled [OF that] entries(3) that by auto
  with entries(1,2) show ?thesis by blast
qed

text \<open>
  The sample with a petal width of 99 is labelled in the batch, and is \<open>unknown\<close> for
  \<^verbatim>\<open>/predict\<close>.
\<close>

theorem predict_multiple_no_range_check_witness:
  "(\<exists>entries.
      predict_multiple example_env (JDict example_batch) =
        (JDict [(''total_samples'', JInt 2), (''predictions'', JList entries)], 200) \<and>
      length entries = 2 \<and>
      field (entries ! 1) ''predicted_species'' = Some (JStr ''virginica'')) \<and>
   field (fst (predict example_env (JDict wide_petal_items))) ''predicted_species'' =
     Some (JStr ''unknown'')"
proof -
  let ?ss = "[JDict setosa_items, JDict wide_petal_items]"
  let ?cls = "\<lambda>k::nat. if k = 0 then 0 else (2::int)"
  have s: "map_of example_batch ''samples'' = Some (JList ?ss)"
    by (simp add: example_batch_def)
  have ne: "?ss \<noteq> []" by simp
  have inference: "\<exists>sl sw pl pw features scaled probabilities.
            py_getitem (?ss ! k) ''sepal_length'' = Inr sl \<and>
            py_getitem (?ss ! k) ''sepal_width'' = Inr sw \<and>
            py_getitem (?ss ! k) ''petal_length'' = Inr pl \<and>
            py_getitem (?ss ! k) ''petal_width'' = Inr pw \<and>
            np_array example_env [sl, sw, pl, pw] = Inr features \<and>
            scaler_transform example_env features = Inr scaled \<and>
            model_predict example_env scaled = Inr (?cls k) \<and> ?cls k \<in> {0, 1, 2} \<and>
            model_predict_proba example_env scaled = Inr probabilities \<and> probabilities \<noteq> []"
    if "k < length ?ss" for k
  proof -
    from that consider "k = 0" | "k = 1" by fastforce
    then show ?thesis
      by cases (simp_all add: example_defs)
  qed
  from predict_multiple_no_range_check [of example_batch ?ss example_env ?cls, OF s ne inference]
  obtain entries where "predict_multiple example_env (JDict example_batch) =
             (JDict [(''total_samples'', JInt (int (length ?ss))),
                     (''predictions'', JList entries)], 200)"
    "length entries = length ?ss"
    "\<forall>k<length ?ss. \<exists>species.
              map_of SPECIES_MAP (?cls k) = Some species \<and>
              species \<noteq> ''unknown'' \<and>
              field (entries ! k) ''predicted_species'' = Some (JStr species)"
    by blast
  then have "predict_multiple example_env (JDict example_batch) =
        (JDict [(''total_samples'', JInt 2), (''predictions'', JList entries)], 200) \<and>
      length entries = 2 \<and>
      field (entries ! 1) ''predicted_species'' = Some (JStr ''virginica'')"
    by (auto simp: SPECIES_MAP_def)
  moreover have "field (fst (predict example_env (JDict wide_petal_items))) ''predicted_species'' =
     Some (JStr ''unknown'')"
    by (simp add: handler_defs example_defs)
  ultimately show ?thesis by blast
qed

text \<open>
  C5. The batch is not fault-isolated. When \<open>samples\<close> is a list and the processing of some
  sample raises, the answer is status 500 with a body of two fields, the error
  \<open>Batch prediction failed\<close> and the message of an exception: it holds no \<open>predictions\<close>,
  so no entry of a sample processed before the failing one.
\<close>

theorem predict_multiple_not_isolated:
  assumes "map_of kvs ''samples'' = Some (JList ss)"
    and "k < length ss" and "predict_sample env k (ss ! k) = Inl e"
  shows "\<exists>e'. predict_multiple env (JDict kvs) =
           (JDict [(''error'', JStr ''Batch prediction failed''),
                   (''message'', JStr (str_exn e'))], 500)"
proof -
  from assms(2) have ne: "ss \<noteq> []" by auto
  from assms(3) have "predict_sample env (0 + k) (ss ! k) = Inl e" by simp
  from predict_loop_failure [OF assms(2) this] obtain e'
    where "predict_loop env 0 ss [] = Inl e'" by blast
  then show ?thesis
    by (intro exI [of _ e']) (simp add: predict_multiple_list [OF assms(1) ne])
qed

theorem predict_multiple_not_isolated_witness:
  "\<exists>e'. predict_multiple example_env (JDict broken_batch) =
           (JDict [(''error'', JStr ''Batch prediction failed''),
                   (''message'', JStr (str_exn e'))], 500)"
proof -
  let ?ss = "[JDict setosa_items, JDict incomplete_items]"
  have s: "map_of broken_batch ''samples'' = Some (JList ?ss)"
    by (simp add: broken_batch_def)
  have k: "1 < length ?ss" by simp
  have f: "predict_sample example_env 1 (?ss ! 1) = Inl KeyError"
    by (simp add: predict_sample_def incomplete_items_def)
  show ?thesis
    by (rule predict_multiple_not_isolated [OF s k f])
qed

text \<open>
  The claim C6 says that every entry of a successful batch answer carries the full probability
  distribution. The entry returned for the first sample of \<^verbatim>\<open>test_api.py\<close> has four fields,
  and \<open>probabilities\<close> is not among them.
\<close>

theorem predict_multiple_entry_counterexample:
  "predict_multiple example_env (JDict [(''samples'', JList [JDict setosa_items])]) =
     (JDict [(''total_samples'', JInt 1),
             (''predictions'',
                JList [JDict [(''sample_id'', JInt 0),
                              (''predicted_species'', JStr ''setosa''),
                              (''confidence'', JFloat (Finite 1)),
                              (''measurements'', JDict setosa_items)]])], 200) \<and>
   field (JDict [(''sample_id'', JInt 0),
                 (''predicted_species'', JStr ''setosa''),
                 (''confidence'', JFloat (Finite 1)),
                 (''measurements'', JDict setosa_items)]) ''probabilities'' = None"
  by (simp add: handler_defs example_defs)

text \<open>
  C6, amended. Every entry of a successful batch answer (status 200) has exactly four fields:
  \<open>sample_id\<close>, its position; \<open>predicted_species\<close>, one of the three species, the one
  \<open>SPECIES_MAP\<close> gives to the class the classifier returned on the scaled sample;
  \<open>confidence\<close>, the maximum of the distribution the classifier returned on the scaled
  sample; and \<open>measurements\<close>, the sample. It has no field \<open>probabilities\<close>.
\<close>

theorem predict_multiple_entry_shape:
  assumes "predict_multiple env data = (body, 200)"
    and "field body ''predictions'' = Some (JList entries)"
    and "k < length entries"
  shows "\<exists>sample sl sw pl pw features scaled prediction probabilities species confidence.
           entries ! k = JDict [(''sample_id'', JInt (int k)),
                                (''predicted_species'', JStr species),
                                (''confidence'', JFloat confidence),
                                (''measurements'', sample)] \<and>
           field (entries ! k) ''probabilities'' = None \<and>
           species \<in> {''setosa'', ''versicolor'', ''virginica''} \<and>
           py_getitem sample ''sepal_length'' = Inr sl \<and>
           py_getitem sample ''sepal_width'' = Inr sw \<and>
           py_getitem sample ''petal_length'' = Inr pl \<and>
           py_getitem sample ''petal_width'' = Inr pw \<and>
           np_array env [sl, sw, pl, pw] = Inr features \<and>
           scaler_transform env features = Inr scaled \<and>
           model_predict env scaled = Inr prediction \<and>
           map_of SPECIES_MAP prediction = Some species \<and>
           model_predict_proba env scaled = Inr probabilities \<and>
           py_max probabilities = Inr confidence"
proof -
  from predict_multiple_status_200 [OF assms(1)] obtain samples items results
    where loop: "predict_loop env 0 items [] = Inr results"
      and body: "body = JDict [(''total_samples'', JInt (int (length results))),
                               (''predictions'', JList results)]"
    by blast
  from body assms(2) have "results = entries" by simp
  with predict_loop_Inr [OF loop] assms(3)
  have "predict_sample env k (items ! k) = Inr (entries ! k)" by auto
  from predict_sample_Inr [OF this]
  obtain sl sw pl pw features scaled prediction probabilities species confidence
    where steps: "py_getitem (items ! k) ''sepal_length'' = Inr sl"
      "py_getitem (items ! k) ''sepal_width'' = Inr sw"
      "py_getitem (items ! k) ''petal_length'' = Inr pl"
      "py_getitem (items ! k) ''petal_width'' = Inr pw"
      "np_array env [sl, sw, pl, pw] = Inr features"
      "scaler_transform env features = Inr scaled"
      "model_predict env scaled = Inr prediction"
      "model_predict_proba env scaled = Inr probabilities"
      "py_max probabilities = Inr confidence"
    and species: "species_of prediction = Inr species"
    and entry: "entries ! k = JDict [(''sample_id'', JInt (int k)),
                          (''predicted_species'', JStr species),
                          (''confidence'', JFloat confidence),
                          (''measurements'', items ! k)]"
    by blast
  have "field (entries ! k) ''probabilities'' = None"
    by (simp add: entry)
  with steps entry species_of_Inr [OF species] species_of_map_of [OF species]
  show ?thesis by blast
qed

theorem predict_multiple_entry_shape_witness:
  "\<exists>entries.
     predict_multiple example_env (JDict example_batch) =
       (JDict [(''total_samples'', JInt 2), (''predictions'', JList entries)], 200) \<and>
     (\<exists>sample species confidence scaled probabilities.
        entries ! 1 = JDict [(''sample_id'', JInt 1),
                             (''predicted_species'', JStr species),
                             (''confidence'', JFloat confidence),
                             (''measurements'', sample)] \<and>
        field (entries ! 1) ''probabilities'' = None \<and>
        species \<in> {''setosa'', ''versicolor'', ''virginica''} \<and>
        model_predict_proba example_env scaled = Inr probabilities \<and>
        py_max probabilities = Inr confidence)"
proof -
  let ?entries = "[JDict [(''sample_id'', JInt 0),
             (''predicted_species'', JStr ''setosa''),
             (''confidence'', JFloat (Finite 1)),
             (''measurements'', JDict setosa_items)],
      JDict [(''sample_id'', JInt 1),
             (''predicted_species'', JStr ''virginica''),
             (''confidence'', JFloat (Finite (9/10))),
             (''measurements'', JDict wide_petal_items)]]"
  let ?body = "JDict [(''total_samples'', JInt 2), (''predictions'', JList ?entries)]"
  have s: "predict_multiple example_env (JDict example_batch) = (?body, 200)"
    by (simp add: handler_defs example_defs batch_defs)
  have f: "field ?body ''predictions'' = Some (JList ?entries)"
    by simp
  have k: "1 < length ?entries" by simp
  from predict_multiple_entry_shape [OF s f k]
  obtain sample sl sw pl pw features scaled prediction probabilities species confidence
    where "?entries ! 1 = JDict [(''sample_id'', JInt (int 1)),
                                (''predicted_species'', JStr species),
                                (''confidence'', JFloat confidence),
                                (''measurements'', sample)]"
      "field (?entries ! 1) ''probabilities'' = None"
      "species \<in> {''setosa'', ''versicolor'', ''virginica''}"
      "model_predict_proba example_env scaled = Inr probabilities"
      "py_max probabilities = Inr confidence"
    by blast
  then have "\<exists>sample species confidence scaled probabilities.
        ?entries ! 1 = JDict [(''sample_id'', JInt 1),
                             (''predicted_species'', JStr species),
                             (''confidence'', JFloat confidence),
                             (''measurements'', sample)] \<and>
        field (?entries ! 1) ''probabilities'' = None \<and>
        species \<in> {''setosa'', ''versicolor'', ''virginica''} \<and>
        model_predict_proba example_env scaled = Inr probabilities \<and>
        py_max probabilities = Inr confidence"
    by (metis of_nat_1)
  with s show ?thesis by blast
qed

text \<open>
  C7. When \<open>samples\<close> is a non-empty list of \<open>N\<close> samples that are all processed without an
  exception, the answer has status 200, \<open>total_samples\<close> is \<open>N\<close>, \<open>predictions\<close> has \<open>N\<close>
  entries, and entry \<open>k\<close> has \<open>sample_id = k\<close> and, under \<open>measurements\<close>, the sample at
  position \<open>k\<close> of the input as it was received.
\<close>

theorem predict_multiple_counts:
  assumes "map_of kvs ''samples'' = Some (JList ss)" and "ss \<noteq> []"
    and "\<And>k. k < length ss \<Longrightarrow> \<exists>entry. predict_sample env k (ss ! k) = Inr entry"
  shows "\<exists>entries.
           predict_multiple env (JDict kvs) =
             (JDict [(''total_samples'', JInt (int (length ss))),
                     (''predictions'', JList entries)], 200) \<and>
           length entries = length ss \<and>
           (\<forall>k<length ss.
              field (entries ! k) ''sample_id'' = Some (JInt (int k)) \<and>
              field (entries ! k) ''measurements'' = Some (ss ! k))"
proof -
  from predict_multiple_success [OF assms] obtain entries
    where entries: "predict_multiple env (JDict kvs) =
             (JDict [(''total_samples'', JInt (int (length ss))),
                     (''predictions'', JList entries)], 200)"
      "length entries = length ss"
      "\<forall>k<length ss. predict_sample env k (ss ! k) = Inr (entries ! k)"
    by blast
  have "field (entries ! k) ''sample_id'' = Some (JInt (int k)) \<and>
        field (entries ! k) ''measurements'' = Some (ss ! k)"
    if "k < length ss" for k
  proof -
    from entries(3) that have "predict_sample env k (ss ! k) = Inr (entries ! k)" by blast
    from predict_sample_Inr [OF this] show ?thesis by auto
  qed
  with entries(1,2) show ?thesis by blast
qed

theorem predict_multiple_counts_witness:
  "\<exists>entries.
     predict_multiple example_env (JDict example_batch) =
       (JDict [(''total_samples'', JInt 2), (''predictions'', JList entries)], 200) \<and>
     length entries = 2 \<and>
     field (entries ! 0) ''sample_id'' = Some (JInt 0) \<and>
     field (entries ! 0) ''measurements'' = Some (JDict setosa_items) \<and>
     field (entries ! 1) ''sample_id'' = Some (JInt 1) \<and>
     field (entries ! 1) ''measurements'' = Some (JDict wide_petal_items)"
proof -
  let ?ss = "[JDict setosa_items, JDict wide_petal_items]"
  have s: "map_of example_batch ''samples'' = Some (JList ?ss)"
    by (simp add: example_batch_def)
  have ne: "?ss \<noteq> []" by simp
  have ok: "\<exists>entry. predict_sample example_env k (?ss ! k) = Inr entry"
    if "k < length ?ss" for k
  proof -
    from that consider "k = 0" | "k = 1" by fastforce
    then show ?thesis
      by cases (simp_all add: handler_defs example_defs)
  qed
  from predict_multiple_counts [OF s ne ok]
  obtain entries where "predict_multiple example_env (JDict example_batch) =
             (JDict [(''total_samples'', JInt (int (length ?ss))),
                     (''predictions'', JList entries)], 200)"
    "length entries = length ?ss"
    "\<forall>k<length ?ss.
              field (entries ! k) ''sample_id'' = Some (JInt (int k)) \<and>
              field (entries ! k) ''measurements'' = Some (?ss ! k)"
    by blast
  then have "predict_multiple example_env (JDict example_batch) =
       (JDict [(''total_samples'', JInt 2), (''predictions'', JList entries)], 200) \<and>
     length entries = 2 \<and>
     field (entries ! 0) ''sample_id'' = Some (JInt 0) \<and>
     field (entries ! 0) ''measurements'' = Some (JDict setosa_items) \<and>
     field (entries ! 1) ''sample_id'' = Some (JInt 1) \<and>
     field (entries ! 1) ''measurements'' = Some (JDict wide_petal_items)"
    by auto
  then show ?thesis by blast
qed

text \<open>
  C8. A body whose \<open>samples\<close> is the empty list is answered with status 400 and the body
  \<open>{error: No samples provided}\<close>, for every scaler and classifier, also for ones that raise
  on every call: no inference takes place.
\<close>

theorem predict_multiple_empty_list:
  assumes "map_of kvs ''samples'' = Some (JList [])"
  shows "predict_multiple env (JDict kvs) =
           (JDict [(''error'', JStr ''No samples provided'')], 400)"
  using assms
  by (simp add: predict_multiple_def predict_multiple_try_def no_samples_response_def)

theorem predict_multiple_empty_list_witness:
  "predict_multiple failing_env (JDict [(''samples'', JList [])]) =
     (JDict [(''error'', JStr ''No samples provided'')], 400)"
proof -
  have "map_of [(''samples'', JList [])] ''samples'' = Some (JList [])" by simp
  then show ?thesis by (rule predict_multiple_empty_list)
qed

text \<open>
  C9. A body that is a JSON object without the key \<open>samples\<close>, or with a value under it whose
  truth value is false (\<^verbatim>\<open>null\<close>, \<^verbatim>\<open>false\<close>, zero, the empty string, list or object), is
  answered like the empty batch: status 400 and \<open>{error: No samples provided}\<close>.
\<close>

theorem predict_multiple_falsy_samples:
  assumes "map_of kvs ''samples'' = None \<or>
           (\<exists>v. map_of kvs ''samples'' = Some v \<and> \<not> truthy v)"
  shows "predict_multiple env (JDict kvs) =
           (JDict [(''error'', JStr ''No samples provided'')], 400)"
  using assms
  by (auto simp: predict_multiple_def predict_multiple_try_def no_samples_response_def)

theorem predict_multiple_falsy_samples_witness:
  "predict_multiple failing_env (JDict []) =
     (JDict [(''error'', JStr ''No samples provided'')], 400) \<and>
   predict_multiple failing_env (JDict [(''samples'', JNull)]) =
     (JDict [(''error'', JStr ''No samples provided'')], 400)"
proof -
  have a: "map_of [] ''samples'' = None \<or>
           (\<exists>v. map_of ([] :: (string \<times> json) list) ''samples'' = Some v \<and> \<not> truthy v)"
    by simp
  have b: "map_of [(''samples'', JNull)] ''samples'' = None \<or>
           (\<exists>v. map_of [(''samples'', JNull)] ''samples'' = Some v \<and> \<not> truthy v)"
    by simp
  from predict_multiple_falsy_samples [OF a] predict_multiple_falsy_samples [OF b]
  show ?thesis by blast
qed

end
